theory Spec2Isabelle
  imports Complex_Main "HOL-Library.AList"
begin

section \<open>Numbers and strings of the Python source\<close>

text \<open>
  Python floats are modelled as reals: sums, means and comparisons are exact here.
  \<open>py_round\<close> is Python's \<open>round(x)\<close> (ties go to the even integer) and
  \<open>round2\<close> is \<open>round(x, 2)\<close>.
\<close>

definition py_round :: "real \<Rightarrow> int" where
  "py_round x =
     (let f = \<lfloor>x\<rfloor>; d = x - of_int f
      in if d < 1 / 2 then f
         else if d > 1 / 2 then f + 1
         else if even f then f else f + 1)"

definition round2 :: "real \<Rightarrow> real" where
  "round2 x = of_int (py_round (x * 100)) / 100"

text \<open>\<open>str(n)\<close> for a non-negative integer, used by the f-string of the image size.\<close>

fun str_nat :: "nat \<Rightarrow> string" where
  "str_nat n =
     (if n < 10 then [char_of (48 + n)]
      else str_nat (n div 10) @ [char_of (48 + n mod 10)])"

declare str_nat.simps [simp del]

section \<open>The analysis record\<close>

text \<open>
  The dictionary returned by both analysers. The keys \<open>head_down\<close> and
  \<open>hand_raised\<close> exist only on the primary path, \<open>face_count\<close> and
  \<open>edge_density\<close> only on the fallback path: an absent key is \<open>None\<close>.
\<close>

record analysis =
  student_id :: string
  activity :: string
  objects_detected :: "string list"
  is_unusual :: bool
  confidence_score :: real
  brightness_level :: real
  head_down :: "bool option"
  hand_raised :: "bool option"
  face_count :: "nat option"
  edge_density :: "real option"
  timestamp :: string
  image_dimensions :: string

section \<open>The detectors' output\<close>

text \<open>
  A row of \<open>results[0].boxes.data\<close>: the class id (column 5) and the detection
  confidence (column 4).
\<close>

record detection =
  class_id :: nat
  det_confidence :: real

text \<open>
  One element of the pose detector's result list: \<open>keypoints\<close> may be \<open>None\<close>,
  and so may \<open>keypoints.xy\<close>; otherwise \<open>xy\<close> holds, per detected person, the
  rows \<open>(x, y)\<close> of the keypoints.
\<close>

type_synonym points = "(real \<times> real) list"

datatype keypoints = Keypoints (xy: "points list option")

datatype pose_result = Pose_Result (keypoints: "keypoints option")

text \<open>
  Lines 93 to 101: the labels of the detections whose confidence exceeds 0.5, in the
  order of detection. The detector is \<open>None\<close> when the model failed to load.
\<close>

definition detect_objects :: "(nat \<Rightarrow> string) \<Rightarrow> detection list option \<Rightarrow> string list" where
  "detect_objects nms dets =
     (case dets of
        None \<Rightarrow> []
      | Some ds \<Rightarrow> map (\<lambda>d. nms (class_id d)) (filter (\<lambda>d. det_confidence d > 0.5) ds))"

text \<open>
  Lines 121 to 129, on the five ordinates read from a keypoint array. The array's
  32-bit floats are reals here, so the mean of the shoulders is exact.
\<close>

definition flags_of_points :: "points \<Rightarrow> bool \<times> bool" where
  "flags_of_points pts =
     (let nose_y = snd (pts ! 0);
          left_shoulder_y = snd (pts ! 5);
          right_shoulder_y = snd (pts ! 6);
          left_wrist_y = snd (pts ! 9);
          right_wrist_y = snd (pts ! 10);
          hd1 = (if nose_y > 0 \<and> left_shoulder_y > 0
                 then (let avg_shoulder = (left_shoulder_y + right_shoulder_y) / 2
                       in nose_y > avg_shoulder + 30)
                 else False);
          hr1 = (left_wrist_y < left_shoulder_y - 50 \<or> right_wrist_y < right_shoulder_y - 50)
      in (hd1, hr1))"

text \<open>
  Lines 104 to 129: both flags start \<open>False\<close> and are only set when the pose detector
  is loaded, returned a result with keypoints, and the first person has at least 11 of
  them. The argument is the detector's result list, \<open>None\<close> without a detector.
\<close>

definition detect_pose :: "pose_result list option \<Rightarrow> bool \<times> bool" where
  "detect_pose pose =
     (case pose of
        None \<Rightarrow> (False, False)
      | Some pose_results \<Rightarrow>
          (case pose_results of
             [] \<Rightarrow> (False, False)
           | r # _ \<Rightarrow>
               (case keypoints r of
                  None \<Rightarrow> (False, False)
                | Some kp \<Rightarrow>
                    (case xy kp of
                       None \<Rightarrow> (False, False)
                     | Some [] \<Rightarrow> (False, False)
                     | Some (pts # _) \<Rightarrow>
                         (if length pts \<ge> 11 then flags_of_points pts
                          else (False, False))))))"

section \<open>The primary classifier\<close>

text \<open>Lines 131 to 166: the cascade that sets activity, is_unusual and confidence_score.\<close>

definition determine_activity :: "string list \<Rightarrow> bool \<Rightarrow> bool \<Rightarrow> string \<times> bool \<times> real" where
  "determine_activity objects_found hd1 hr1 =
     (if ''cell phone'' \<in> set objects_found then (''Using Phone'', True, 0.95)
      else if ''person'' \<notin> set objects_found then (''Student Absent'', True, 0.90)
      else if list_ex (\<lambda>food. food \<in> set objects_found)
                [''fork'', ''spoon'', ''bowl'', ''cup'', ''bottle'']
        then (''Eating/Drinking'', True, 0.85)
      else if hd1 \<and> ''book'' \<notin> set objects_found \<and> ''laptop'' \<notin> set objects_found
        then (''Sleeping/Distracted'', True, 0.75)
      else if hr1 then (''Hand Raised (Participating)'', False, 0.90)
      else if ''laptop'' \<in> set objects_found then (''Working on Laptop'', False, 0.85)
      else if ''book'' \<in> set objects_found then (''Reading/Studying'', False, 0.80)
      else if hd1 then (''Writing/Focused'', False, 0.70)
      else (''Attentive/Listening'', False, 0.65))"

section \<open>What lies outside the code: vision library, clock\<close>

text \<open>
  A call either returns a value or raises; the exception is kept as its message.
\<close>

datatype 'a outcome = Raised string | Returned 'a

text \<open>
  The calls into OpenCV, NumPy and the YOLO models are parameters of the model. A
  detector is \<open>None\<close> when the model failed to load at start-up (lines 30 to 38), and a
  loaded detector may raise on an image. \<open>imdecode\<close> returns \<open>None\<close> for bytes that are
  no image. \<open>shape\<close> gives (height, width).
\<close>

record 'img env =
  imdecode :: "nat list \<Rightarrow> 'img option"
  shape :: "'img \<Rightarrow> nat \<times> nat"
  mean_gray :: "'img \<Rightarrow> real"
  object_detector :: "('img \<Rightarrow> detection list outcome) option"
  names :: "nat \<Rightarrow> string"
  pose_detector :: "('img \<Rightarrow> pose_result list outcome) option"
  count_faces :: "'img \<Rightarrow> nat outcome"
  count_edges :: "'img \<Rightarrow> nat"

definition run_detector :: "('img \<Rightarrow> 'a outcome) option \<Rightarrow> 'img \<Rightarrow> 'a option outcome" where
  "run_detector detector img =
     (case detector of
        None \<Rightarrow> Returned None
      | Some f \<Rightarrow> (case f img of Raised e \<Rightarrow> Raised e | Returned r \<Rightarrow> Returned (Some r)))"

text \<open>
  The dictionary built by lines 131 to 181 from the detectors' output \<open>dets\<close> and
  \<open>pose\<close>, the mean grey level and the time.
\<close>

definition advanced_result ::
  "nat \<Rightarrow> nat \<Rightarrow> (nat \<Rightarrow> string) \<Rightarrow> detection list option \<Rightarrow> pose_result list option
     \<Rightarrow> real \<Rightarrow> string \<Rightarrow> string \<Rightarrow> analysis" where
  "advanced_result width height nms dets pose brightness now sid =
     (let objects_found = detect_objects nms dets;
          (hd1, hr1) = detect_pose pose;
          (act, unusual, confidence) = determine_activity objects_found hd1 hr1
      in \<lparr> student_id = sid,
           activity = act,
           objects_detected = objects_found,
           is_unusual = unusual,
           confidence_score = round2 confidence,
           brightness_level = round2 brightness,
           head_down = Some hd1,
           hand_raised = Some hr1,
           face_count = None,
           edge_density = None,
           timestamp = now,
           image_dimensions = str_nat width @ ''x'' @ str_nat height \<rparr>)"

text \<open>\<open>analyze_image_advanced\<close>, lines 87 to 181.\<close>

definition analyze_image_advanced :: "'img env \<Rightarrow> string \<Rightarrow> 'img \<Rightarrow> string \<Rightarrow> analysis outcome" where
  "analyze_image_advanced e now img sid =
     (let (height, width) = shape e img
      in case run_detector (object_detector e) img of
           Raised x \<Rightarrow> Raised x
         | Returned dets \<Rightarrow>
             (case run_detector (pose_detector e) img of
                Raised x \<Rightarrow> Raised x
              | Returned pose \<Rightarrow>
                  Returned (advanced_result width height (names e) dets pose
                              (mean_gray e img) now sid)))"

section \<open>The fallback classifier\<close>

text \<open>Lines 198 to 210.\<close>

definition estimate_activity :: "nat \<Rightarrow> real \<Rightarrow> real \<Rightarrow> string \<times> bool" where
  "estimate_activity faces density brightness =
     (if faces = 0 then (''Student Absent'', True)
      else if density > 15 then (''High Activity Detected'', False)
      else if brightness < 50 then (''Low Visibility'', True)
      else (''Attentive'', False))"

text \<open>
  The dictionary built by lines 194 to 223 from the number of faces, the number of edge
  pixels and the mean grey level.
\<close>

definition basic_result ::
  "nat \<Rightarrow> nat \<Rightarrow> nat \<Rightarrow> nat \<Rightarrow> real \<Rightarrow> string \<Rightarrow> string \<Rightarrow> analysis" where
  "basic_result width height faces edges brightness now sid =
     (let density = real edges / real (width * height) * 100;
          (act, unusual) = estimate_activity faces density brightness
      in \<lparr> student_id = sid,
           activity = act,
           objects_detected = [],
           is_unusual = unusual,
           confidence_score = 0.6,
           brightness_level = round2 brightness,
           head_down = None,
           hand_raised = None,
           face_count = Some faces,
           edge_density = Some (round2 density),
           timestamp = now,
           image_dimensions = str_nat width @ ''x'' @ str_nat height \<rparr>)"

text \<open>\<open>analyze_image_basic\<close>, lines 183 to 223.\<close>

definition analyze_image_basic :: "'img env \<Rightarrow> string \<Rightarrow> 'img \<Rightarrow> string \<Rightarrow> analysis outcome" where
  "analyze_image_basic e now img sid =
     (let (height, width) = shape e img
      in case count_faces e img of
           Raised x \<Rightarrow> Raised x
         | Returned faces \<Rightarrow>
             Returned (basic_result width height faces (count_edges e img)
                         (mean_gray e img) now sid))"

section \<open>The two persisted documents\<close>

text \<open>
  A file of the data directory is missing, holds the JSON of a value of the expected
  shape, or holds something else, on which the reading code raises.
\<close>

datatype 'a document = Missing | Json 'a | Corrupt

text \<open>
  The statistics dictionary. \<open>activities\<close> is a dictionary from label to count, kept
  as an association list in insertion order.
\<close>

record statistics =
  total_sessions :: int
  unusual_count :: int
  activities :: "(string \<times> int) list"
  last_updated :: "string option"

record store =
  sessions_file :: "analysis list document"
  stats_file :: "statistics document"

text \<open>\<open>d.get(k, default)\<close> on a dictionary kept as an association list.\<close>

definition dict_get :: "('k \<times> 'v) list \<Rightarrow> 'k \<Rightarrow> 'v \<Rightarrow> 'v" where
  "dict_get d k dflt = (case map_of d k of None \<Rightarrow> dflt | Some v \<Rightarrow> v)"

text \<open>Lines 41 to 46.\<close>

definition load_sessions :: "store \<Rightarrow> analysis list outcome" where
  "load_sessions st =
     (case sessions_file st of
        Missing \<Rightarrow> Returned []
      | Json v \<Rightarrow> Returned v
      | Corrupt \<Rightarrow> Raised ''JSONDecodeError'')"

text \<open>Lines 74 to 84.\<close>

definition default_statistics :: statistics where
  "default_statistics =
     \<lparr> total_sessions = 0, unusual_count = 0, activities = [], last_updated = None \<rparr>"

definition load_statistics :: "store \<Rightarrow> statistics outcome" where
  "load_statistics st =
     (case stats_file st of
        Missing \<Rightarrow> Returned default_statistics
      | Json v \<Rightarrow> Returned v
      | Corrupt \<Rightarrow> Raised ''JSONDecodeError'')"

text \<open>
  Lines 59 to 72. A raise happens while loading, before anything is written, so the
  store is then unchanged.
\<close>

definition fold_statistics :: "string \<Rightarrow> analysis \<Rightarrow> statistics \<Rightarrow> statistics" where
  "fold_statistics now session_data stats =
     (let stats1 = stats\<lparr>total_sessions := total_sessions stats + 1\<rparr>;
          stats2 = stats1\<lparr>activities :=
                     AList.update (activity session_data)
                       (dict_get (activities stats1) (activity session_data) 0 + 1)
                       (activities stats1)\<rparr>;
          stats3 = (if is_unusual session_data
                    then stats2\<lparr>unusual_count := unusual_count stats2 + 1\<rparr>
                    else stats2)
      in stats3\<lparr>last_updated := Some now\<rparr>)"

definition update_statistics :: "string \<Rightarrow> analysis \<Rightarrow> store \<Rightarrow> unit outcome \<times> store" where
  "update_statistics now session_data st =
     (case load_statistics st of
        Raised x \<Rightarrow> (Raised x, st)
      | Returned stats \<Rightarrow>
          (Returned (), st\<lparr>stats_file := Json (fold_statistics now session_data stats)\<rparr>))"

text \<open>
  Lines 48 to 57. The sessions file is written before the statistics are updated, so a
  raise of \<open>update_statistics\<close> leaves the new sessions file in place.
\<close>

definition save_session :: "string \<Rightarrow> analysis \<Rightarrow> store \<Rightarrow> unit outcome \<times> store" where
  "save_session now session_data st =
     (case load_sessions st of
        Raised x \<Rightarrow> (Raised x, st)
      | Returned sessions \<Rightarrow>
          (let sessions1 = take 1000 (session_data # sessions)
           in update_statistics now session_data (st\<lparr>sessions_file := Json sessions1\<rparr>)))"

text \<open>Lines 345 to 352.\<close>

definition clear_data :: "store \<Rightarrow> store" where
  "clear_data st =
     (let st1 = (if sessions_file st \<noteq> Missing then st\<lparr>sessions_file := Missing\<rparr> else st)
      in if stats_file st1 \<noteq> Missing then st1\<lparr>stats_file := Missing\<rparr> else st1)"

text \<open>The slice \<open>xs[:n]\<close> of Python: a negative \<open>n\<close> counts from the end.\<close>

definition py_take :: "int \<Rightarrow> 'a list \<Rightarrow> 'a list" where
  "py_take n xs = (if n \<ge> 0 then take (nat n) xs else take (length xs - nat (- n)) xs)"

text \<open>
  Lines 316 to 321. The argument is the query parameter \<open>limit\<close> when it is present and
  an integer, \<open>None\<close> otherwise (the default, 50, is then taken). Returns the sessions
  and their count.
\<close>

definition get_sessions :: "int option \<Rightarrow> store \<Rightarrow> (analysis list \<times> nat) outcome" where
  "get_sessions limit_arg st =
     (let limit = (case limit_arg of None \<Rightarrow> 50 | Some n \<Rightarrow> n)
      in case load_sessions st of
           Raised x \<Rightarrow> Raised x
         | Returned all_sessions \<Rightarrow>
             (let sessions = py_take limit all_sessions
              in Returned (sessions, length sessions)))"

text \<open>
  Lines 323 to 343. The response is the statistics dictionary, to which three keys are
  added when the session list is not empty.
\<close>

record stats_response = statistics +
  average_confidence :: "real option"
  activity_distribution :: "(string \<times> int) list option"
  recent_sessions :: "analysis list option"

text \<open>\<open>activity_dist[s['activity']] += 1\<close> on a \<open>defaultdict(int)\<close>, over a list.\<close>

definition count_activities :: "analysis list \<Rightarrow> (string \<times> int) list" where
  "count_activities sessions =
     foldl (\<lambda>activity_dist s.
              AList.update (activity s) (dict_get activity_dist (activity s) 0 + 1) activity_dist)
       [] sessions"

definition get_stats :: "store \<Rightarrow> stats_response outcome" where
  "get_stats st =
     (case load_statistics st of
        Raised x \<Rightarrow> Raised x
      | Returned stats \<Rightarrow>
          (case load_sessions st of
             Raised x \<Rightarrow> Raised x
           | Returned sessions \<Rightarrow>
               (let base = \<lparr> total_sessions = total_sessions stats,
                             unusual_count = unusual_count stats,
                             activities = activities stats,
                             last_updated = last_updated stats,
                             average_confidence = None,
                             activity_distribution = None,
                             recent_sessions = None \<rparr>
                in if sessions \<noteq> [] then
                     (let recent = take 20 sessions;
                          avg_confidence = sum_list (map confidence_score recent)
                                             / real (length recent);
                          activity_dist = count_activities (take 100 sessions)
                      in Returned (base\<lparr> average_confidence := Some (round2 avg_confidence),
                                         activity_distribution := Some activity_dist,
                                         recent_sessions := Some (take 10 recent) \<rparr>))
                   else Returned base)))"

section \<open>The analyse route\<close>

text \<open>
  The process state: the dictionary \<open>latest_frames\<close> and the data directory.
\<close>

record 'img server =
  latest_frames :: "string \<rightharpoonup> 'img"
  disk :: store

text \<open>
  A request: the bytes of the uploaded file \<open>image\<close> when the form has one, and the text
  fields of the form in order (\<open>form.get\<close> returns the first value of a key).
\<close>

record request =
  image_file :: "nat list option"
  form :: "(string \<times> string) list"

datatype response = Success analysis | Failure nat string

text \<open>
  Lines 257 to 299. \<open>now\<close> is the clock read by the analyser and \<open>now'\<close> the one read
  by \<open>update_statistics\<close>.
\<close>

definition analyze :: "'img env \<Rightarrow> string \<Rightarrow> string \<Rightarrow> request \<Rightarrow> 'img server \<Rightarrow> response \<times> 'img server" where
  "analyze e now now' req srv =
     (case image_file req of
        None \<Rightarrow> (Failure 400 ''No image provided'', srv)
      | Some image_bytes \<Rightarrow>
          (let sid = dict_get (form req) ''student_id'' ''unknown''
           in case imdecode e image_bytes of
                None \<Rightarrow> (Failure 400 ''Failed to decode image'', srv)
              | Some img \<Rightarrow>
                  (let srv1 = srv\<lparr>latest_frames := (latest_frames srv)(sid \<mapsto> img)\<rparr>;
                       analysed =
                         (if object_detector e \<noteq> None \<and> pose_detector e \<noteq> None
                          then analyze_image_advanced e now img sid
                          else analyze_image_basic e now img sid)
                   in case analysed of
                        Raised x \<Rightarrow> (Failure 500 x, srv1)
                      | Returned a \<Rightarrow>
                          (case save_session now' a (disk srv1) of
                             (Raised x, d) \<Rightarrow> (Failure 500 x, srv1\<lparr>disk := d\<rparr>)
                           | (Returned u, d) \<Rightarrow> (Success a, srv1\<lparr>disk := d\<rparr>)))))"

section \<open>Sequences of record operations\<close>

text \<open>
  \<open>save_session\<close> called once per element of a list, oldest first, whatever each call
  returns or raises.
\<close>

definition record_all :: "string \<Rightarrow> analysis list \<Rightarrow> store \<Rightarrow> store" where
  "record_all now xs st = foldl (\<lambda>s x. snd (save_session now x s)) st xs"

text \<open>The results that one of the two analysers can return.\<close>

inductive produced :: "analysis \<Rightarrow> bool" where
  primary: "produced (advanced_result w h nms dets pose b now sid)"
| fallback: "produced (basic_result w h faces edges b now sid)"

section \<open>The specification's tables\<close>

text \<open>The nine rules of the primary classifier in the specification's words.\<close>

definition cascade :: "string list \<Rightarrow> bool \<Rightarrow> bool \<Rightarrow> string \<times> bool \<times> real" where
  "cascade objs hd1 hr1 =
     (if ''cell phone'' \<in> set objs then (''Using Phone'', True, 0.95)
      else if ''person'' \<notin> set objs then (''Student Absent'', True, 0.90)
      else if set objs \<inter> {''fork'', ''spoon'', ''bowl'', ''cup'', ''bottle''} \<noteq> {}
        then (''Eating/Drinking'', True, 0.85)
      else if hd1 \<and> ''book'' \<notin> set objs \<and> ''laptop'' \<notin> set objs
        then (''Sleeping/Distracted'', True, 0.75)
      else if hr1 then (''Hand Raised (Participating)'', False, 0.90)
      else if ''laptop'' \<in> set objs then (''Working on Laptop'', False, 0.85)
      else if ''book'' \<in> set objs then (''Reading/Studying'', False, 0.80)
      else if hd1 then (''Writing/Focused'', False, 0.70)
      else (''Attentive/Listening'', False, 0.65))"

text \<open>The four rules of the fallback classifier, with the fixed confidence.\<close>

definition fallback_cascade :: "nat \<Rightarrow> real \<Rightarrow> real \<Rightarrow> string \<times> bool \<times> real" where
  "fallback_cascade faces density brightness =
     (if faces = 0 then (''Student Absent'', True, 0.60)
      else if density > 15 then (''High Activity Detected'', False, 0.60)
      else if brightness < 50 then (''Low Visibility'', True, 0.60)
      else (''Attentive'', False, 0.60))"


text \<open>The specification's table from activity label to unusual flag.\<close>

definition unusual_table :: "(string \<times> bool) list" where
  "unusual_table =
     [(''Using Phone'', True), (''Student Absent'', True), (''Eating/Drinking'', True),
      (''Sleeping/Distracted'', True), (''Low Visibility'', True),
      (''Hand Raised (Participating)'', False), (''Working on Laptop'', False),
      (''Reading/Studying'', False), (''Writing/Focused'', False),
      (''Attentive/Listening'', False), (''High Activity Detected'', False),
      (''Attentive'', False)]"

section \<open>Concrete inputs\<close>



text \<open>Four of the class names of the object model.\<close>

definition coco_names :: "nat \<Rightarrow> string" where
  "coco_names i =
     (if i = 0 then ''person'' else if i = 67 then ''cell phone''
      else if i = 73 then ''book'' else if i = 63 then ''laptop'' else ''other'')"


text \<open>
  A server without models, where an image is its non-empty byte string, and one whose
  object detector raises on every image.
\<close>

definition basic_env :: "(nat list) env" where
  "basic_env =
     \<lparr> imdecode = (\<lambda>bs. if bs = [] then None else Some bs),
       shape = (\<lambda>i. (480, 640)),
       mean_gray = (\<lambda>i. 120),
       object_detector = None,
       names = coco_names,
       pose_detector = None,
       count_faces = (\<lambda>i. Returned 1),
       count_edges = (\<lambda>i. 0) \<rparr>"

definition raising_env :: "(nat list) env" where
  "raising_env =
     basic_env\<lparr> object_detector := Some (\<lambda>i. Raised ''RuntimeError''),
                pose_detector := Some (\<lambda>i. Returned []) \<rparr>"

definition empty_server :: "(nat list) server" where
  "empty_server =
     \<lparr> latest_frames = Map.empty,
       disk = \<lparr> sessions_file = Missing, stats_file = Missing \<rparr> \<rparr>"

text \<open>A thousand and one distinct results of the fallback analyser.\<close>

definition thousand_and_one :: "analysis list" where
  "thousand_and_one =
     map (\<lambda>i. basic_result 640 480 i 0 120 ''t'' ''cam1'') [0..<1001]"

text \<open>Requests with an image, with the identifier under two different field names, and one without image.\<close>

definition subject_request :: request where
  "subject_request = \<lparr> image_file = Some [1], form = [(''subject_id'', ''cam1'')] \<rparr>"

definition student_request :: request where
  "student_request = \<lparr> image_file = Some [1], form = [(''student_id'', ''cam1'')] \<rparr>"

definition no_image_request :: request where
  "no_image_request = \<lparr> image_file = None, form = [(''student_id'', ''cam1'')] \<rparr>"

text \<open>The statistics response after a reset.\<close>

definition zero_statistics :: stats_response where
  "zero_statistics =
     \<lparr> total_sessions = 0, unusual_count = 0, activities = [], last_updated = None,
       average_confidence = None, activity_distribution = None, recent_sessions = None \<rparr>"


section \<open>The primary classifier's cascade\<close>

lemma round2_norm:
  "round2 (19 / 20) = 19 / 20" "round2 (9 / 10) = 9 / 10" "round2 (17 / 20) = 17 / 20"
  "round2 (3 / 4) = 3 / 4" "round2 (4 / 5) = 4 / 5" "round2 (7 / 10) = 7 / 10"
  "round2 (13 / 20) = 13 / 20"
  by (simp_all add: round2_def py_round_def Let_def)

lemma food_any:
  "list_ex (\<lambda>food. food \<in> set objs) [''fork'', ''spoon'', ''bowl'', ''cup'', ''bottle'']
     \<longleftrightarrow> set objs \<inter> {''fork'', ''spoon'', ''bowl'', ''cup'', ''bottle''} \<noteq> {}"
  by auto

lemma determine_activity_round:
  "(case determine_activity objs hd1 hr1 of (a, u, c) \<Rightarrow> (a, u, round2 c)) = cascade objs hd1 hr1"
  unfolding determine_activity_def cascade_def food_any
  by (simp add: round2_norm)

lemma advanced_result_cascade:
  "(activity (advanced_result w h nms dets pose b now sid),
    is_unusual (advanced_result w h nms dets pose b now sid),
    confidence_score (advanced_result w h nms dets pose b now sid))
   = cascade (detect_objects nms dets) (fst (detect_pose pose)) (snd (detect_pose pose))"
  unfolding determine_activity_round [symmetric]
  by (simp add: advanced_result_def Let_def split: prod.splits)




section \<open>The pose flags\<close>







section \<open>The unusual flag and the fallback classifier\<close>

lemma cascade_unusual:
  "cascade objs hd1 hr1 = (a, u, c) \<Longrightarrow> map_of unusual_table a = Some u"
  by (auto simp add: cascade_def unusual_table_def split: if_splits)

lemma basic_result_fields:
  "(activity (basic_result w h faces edges b now sid),
    is_unusual (basic_result w h faces edges b now sid),
    confidence_score (basic_result w h faces edges b now sid))
   = fallback_cascade faces (real edges / real (w * h) * 100) b"
  by (simp add: basic_result_def estimate_activity_def fallback_cascade_def Let_def)

lemma fallback_unusual:
  "fallback_cascade faces d b = (a, u, c) \<Longrightarrow> map_of unusual_table a = Some u"
  by (auto simp add: fallback_cascade_def unusual_table_def split: if_splits)

lemma produced_table: "produced r \<Longrightarrow> map_of unusual_table (activity r) = Some (is_unusual r)"
proof (induction rule: produced.induct)
  case (primary w h nms dets pose b now sid)
  show ?case
    by (rule cascade_unusual [OF advanced_result_cascade [symmetric]])
next
  case (fallback w h faces edges b now sid)
  show ?case
    by (rule fallback_unusual [OF basic_result_fields [symmetric]])
qed

lemma analysers_produced:
  "analyze_image_advanced e now img sid = Returned a \<Longrightarrow> produced a"
  "analyze_image_basic e now img sid = Returned a \<Longrightarrow> produced a"
  by (auto simp add: analyze_image_advanced_def analyze_image_basic_def Let_def
      intro: produced.intros split: prod.splits outcome.splits)

text \<open>
  Claim C3. For every result produced by the primary or the fallback analyser, the
  unusual flag is the entry of the fixed twelve-row table at the result's activity
  label; so two produced results with the same activity label carry the same flag.
\<close>

theorem unusual_by_activity:
  "(produced r \<longrightarrow> map_of unusual_table (activity r) = Some (is_unusual r))
   \<and> (produced r1 \<and> produced r2 \<and> activity r1 = activity r2 \<longrightarrow> is_unusual r1 = is_unusual r2)"
proof (intro conjI impI)
  assume "produced r" then show "map_of unusual_table (activity r) = Some (is_unusual r)"
    by (rule produced_table)
next
  assume a: "produced r1 \<and> produced r2 \<and> activity r1 = activity r2"
  have "map_of unusual_table (activity r1) = Some (is_unusual r1)"
    using a produced_table by blast
  moreover have "map_of unusual_table (activity r2) = Some (is_unusual r2)"
    using a produced_table by blast
  ultimately show "is_unusual r1 = is_unusual r2"
    using a by (metis option.inject)
qed

theorem unusual_by_activity_witness:
  "produced (advanced_result 640 480 coco_names (Some []) None 120 ''t0'' ''cam1'')
   \<and> produced (basic_result 640 480 0 0 120 ''t1'' ''cam2'')
   \<and> activity (advanced_result 640 480 coco_names (Some []) None 120 ''t0'' ''cam1'')
       = activity (basic_result 640 480 0 0 120 ''t1'' ''cam2'')
   \<and> is_unusual (advanced_result 640 480 coco_names (Some []) None 120 ''t0'' ''cam1'')
       = is_unusual (basic_result 640 480 0 0 120 ''t1'' ''cam2'')
   \<and> map_of unusual_table (activity (basic_result 640 480 0 0 120 ''t1'' ''cam2'')) = Some True"
proof -
  let ?a = "advanced_result 640 480 coco_names (Some []) None 120 ''t0'' ''cam1''"
  let ?b = "basic_result 640 480 0 0 120 ''t1'' ''cam2''"
  have pa: "produced ?a" by (rule produced.primary)
  have pb: "produced ?b" by (rule produced.fallback)
  have e: "activity ?a = activity ?b"
    by (simp add: advanced_result_def basic_result_def detect_objects_def detect_pose_def
        determine_activity_def estimate_activity_def Let_def)
  have u: "is_unusual ?b = True"
    by (simp add: basic_result_def estimate_activity_def Let_def)
  from unusual_by_activity [of ?b ?a ?b] pa pb e u show ?thesis by simp
qed

text \<open>
  Claim C6. The fallback analyser decides by the first matching rule of: no face,
  "Student Absent", unusual; edge density above 15, "High Activity Detected", not
  unusual; brightness below 50, "Low Visibility", unusual; otherwise "Attentive", not
  unusual. The confidence score of its result is 0.60 in every branch. In particular no
  face gives "Student Absent", unusual, 0.60 for every edge density and brightness.
\<close>

theorem fallback_classifier:
  "estimate_activity faces density brightness
     = (fst (fallback_cascade faces density brightness),
        fst (snd (fallback_cascade faces density brightness)))
   \<and> (activity (basic_result w h faces edges b now sid),
      is_unusual (basic_result w h faces edges b now sid),
      confidence_score (basic_result w h faces edges b now sid))
     = fallback_cascade faces (real edges / real (w * h) * 100) b
   \<and> snd (snd (fallback_cascade faces density brightness)) = 0.60
   \<and> (faces = 0 \<longrightarrow>
        activity (basic_result w h faces edges b now sid) = ''Student Absent''
        \<and> is_unusual (basic_result w h faces edges b now sid)
        \<and> confidence_score (basic_result w h faces edges b now sid) = 0.60)"
  by (simp add: basic_result_def estimate_activity_def fallback_cascade_def Let_def)

theorem fallback_classifier_witness:
  "(0::nat) = 0
   \<and> activity (basic_result 640 480 0 90000 10 ''t0'' ''cam1'') = ''Student Absent''
   \<and> is_unusual (basic_result 640 480 0 90000 10 ''t0'' ''cam1'')
   \<and> confidence_score (basic_result 640 480 0 90000 10 ''t0'' ''cam1'') = 0.60"
  using fallback_classifier [of 0 0 0 640 480 90000 10 "''t0''" "''cam1''"]
  by simp

section \<open>The session log\<close>

lemma take_append_take: "take n (ys @ take n zs) = take n (ys @ zs)"
  by (simp add: min_def)

lemma update_statistics_ok:
  "load_statistics st = Returned s \<Longrightarrow>
     update_statistics now x st = (Returned (), st\<lparr>stats_file := Json (fold_statistics now x s)\<rparr>)"
  by (simp add: update_statistics_def)

lemma update_statistics_sessions:
  "sessions_file (snd (update_statistics now x st)) = sessions_file st"
  by (simp add: update_statistics_def split: outcome.splits)

lemma save_session_log:
  "load_sessions st = Returned ss \<Longrightarrow>
     load_sessions (snd (save_session now x st)) = Returned (take 1000 (x # ss))"
  by (simp add: save_session_def Let_def load_sessions_def update_statistics_sessions)

lemma save_session_stats:
  "load_sessions st = Returned ss \<Longrightarrow> load_statistics st = Returned s \<Longrightarrow>
     load_statistics (snd (save_session now x st)) = Returned (fold_statistics now x s)"
  by (simp add: save_session_def Let_def update_statistics_def load_statistics_def)

lemma record_all_Cons:
  "record_all now (x # xs) st = record_all now xs (snd (save_session now x st))"
  by (simp add: record_all_def)

lemma record_all_log:
  "load_sessions st = Returned ss \<Longrightarrow>
     load_sessions (record_all now xs st)
       = Returned (if xs = [] then ss else take 1000 (rev xs @ ss))"
proof (induction xs arbitrary: st ss)
  case Nil
  then show ?case by (simp add: record_all_def)
next
  case (Cons x xs)
  have "load_sessions (snd (save_session now x st)) = Returned (take 1000 (x # ss))"
    using Cons.prems by (rule save_session_log)
  from Cons.IH [OF this]
  have "load_sessions (record_all now (x # xs) st)
          = Returned (if xs = [] then take 1000 (x # ss)
                      else take 1000 (rev xs @ take 1000 (x # ss)))"
    by (simp only: record_all_Cons)
  then show ?case
    by (simp add: take_append_take del: take_Cons_numeral take_append)
qed

lemma face_count_basic: "face_count (basic_result w h i e b t s) = Some i"
  by (simp add: basic_result_def Let_def split: prod.splits)

lemma length_thousand_and_one: "length thousand_and_one = 1001"
  by (simp add: thousand_and_one_def)

lemma thousand_and_one_fresh: "hd thousand_and_one \<notin> set (tl thousand_and_one)"
proof -
  have u: "[0..<1001] = 0 # [Suc 0..<1001]"
    by (rule upt_conv_Cons) simp
  have h: "hd thousand_and_one = basic_result 640 480 0 0 120 ''t'' ''cam1''"
    unfolding thousand_and_one_def u by (simp only: list.map list.sel)
  have t: "tl thousand_and_one
             = map (\<lambda>i. basic_result 640 480 i 0 120 ''t'' ''cam1'') [Suc 0..<1001]"
    unfolding thousand_and_one_def u by (simp only: list.map list.sel)
  show ?thesis
  proof
    assume "hd thousand_and_one \<in> set (tl thousand_and_one)"
    then have "basic_result 640 480 0 0 120 ''t'' ''cam1''
                 \<in> (\<lambda>i. basic_result 640 480 i 0 120 ''t'' ''cam1'') ` {Suc 0..<1001}"
      unfolding h t by (simp only: set_map set_upt)
    then obtain i where i: "i \<in> {Suc 0..<1001}" and
      e: "basic_result 640 480 0 0 120 ''t'' ''cam1'' = basic_result 640 480 i 0 120 ''t'' ''cam1''"
      by (rule imageE)
    have "face_count (basic_result 640 480 0 0 120 ''t'' ''cam1'')
               = face_count (basic_result 640 480 i 0 120 ''t'' ''cam1'')"
      by (rule arg_cong [OF e])
    then have "i = 0" by (simp only: face_count_basic option.inject)
    with i show False by simp
  qed
qed

text \<open>
  Claim C4. When the sessions file can be read as the list \<open>ss\<close>, the list stored by
  \<open>save_session\<close> is the new record followed by the first 999 records of \<open>ss\<close> in their
  order, at most 1000 entries, whatever the statistics file holds. After 1001 record
  operations on an empty log the stored list is the last 1000 records, newest first: its
  first element is the record inserted last, and the record inserted first, when it
  differs from the 1000 later ones, is no longer in it.
\<close>

theorem session_log_capped:
  "(load_sessions st = Returned ss \<longrightarrow>
      load_sessions (snd (save_session now x st)) = Returned (x # take 999 ss)
      \<and> length (x # take 999 ss) \<le> 1000)
   \<and> (load_sessions st = Returned [] \<and> length xs = 1001 \<longrightarrow>
        load_sessions (record_all now xs st) = Returned (rev (tl xs))
        \<and> length (rev (tl xs)) = 1000
        \<and> hd (rev (tl xs)) = last xs
        \<and> (hd xs \<notin> set (tl xs) \<longrightarrow> hd xs \<notin> set (rev (tl xs))))"
proof (intro conjI impI)
  assume a: "load_sessions st = Returned ss"
  show "load_sessions (snd (save_session now x st)) = Returned (x # take 999 ss)"
    using save_session_log [OF a, of now x] by simp
  show "length (x # take 999 ss) \<le> 1000" by simp
next
  assume b: "load_sessions st = Returned [] \<and> length xs = 1001"
  then obtain y ys where xs: "xs = y # ys" and ys: "length ys = 1000"
    by (cases xs) auto
  have "take 1000 (rev xs) = rev (tl xs)"
    using ys by (simp add: xs)
  then show l: "load_sessions (record_all now xs st) = Returned (rev (tl xs))"
    using record_all_log [of st "[]" now xs] b xs by simp
  show "length (rev (tl xs)) = 1000" using ys xs by simp
  show "hd (rev (tl xs)) = last xs" using ys xs by (cases ys rule: rev_cases) auto
  assume "hd xs \<notin> set (tl xs)" then show "hd xs \<notin> set (rev (tl xs))" by simp
qed

theorem session_log_capped_witness:
  "load_sessions (disk empty_server) = Returned []
   \<and> length thousand_and_one = 1001
   \<and> hd thousand_and_one \<notin> set (tl thousand_and_one)
   \<and> load_sessions (snd (save_session ''t'' (hd thousand_and_one) (disk empty_server)))
       = Returned [hd thousand_and_one]
   \<and> load_sessions (record_all ''t'' thousand_and_one (disk empty_server))
       = Returned (rev (tl thousand_and_one))
   \<and> hd thousand_and_one \<notin> set (rev (tl thousand_and_one))"
proof -
  have e: "load_sessions (disk empty_server) = Returned []"
    by (simp add: empty_server_def load_sessions_def)
  from session_log_capped [of "disk empty_server" "[]" "''t''" "hd thousand_and_one" thousand_and_one]
    e length_thousand_and_one thousand_and_one_fresh
  show ?thesis by simp
qed

section \<open>The running statistics\<close>

lemma dict_get_update:
  "dict_get (AList.update k v al) k' d = (if k' = k then v else dict_get al k' d)"
  by (simp add: dict_get_def update_conv')

lemma sum_update:
  "sum_list (map snd (AList.update k (dict_get al k 0 + 1) al)) = sum_list (map snd al) + (1::int)"
  by (induction al) (auto simp add: dict_get_def)

lemma fold_statistics_fields:
  "total_sessions (fold_statistics now x s) = total_sessions s + 1"
  "unusual_count (fold_statistics now x s) = unusual_count s + (if is_unusual x then 1 else 0)"
  "dict_get (activities (fold_statistics now x s)) a 0
     = dict_get (activities s) a 0 + (if a = activity x then 1 else 0)"
  "sum_list (map snd (activities (fold_statistics now x s)))
     = sum_list (map snd (activities s)) + 1"
  "last_updated (fold_statistics now x s) = Some now"
  by (simp_all add: fold_statistics_def Let_def dict_get_update sum_update)

lemma record_all_stats:
  "load_sessions st = Returned ss \<Longrightarrow> load_statistics st = Returned s \<Longrightarrow>
     \<exists>s'. load_statistics (record_all now xs st) = Returned s'
        \<and> total_sessions s' = total_sessions s + int (length xs)
        \<and> unusual_count s' = unusual_count s + int (length (filter is_unusual xs))
        \<and> sum_list (map snd (activities s')) = sum_list (map snd (activities s)) + int (length xs)"
proof (induction xs arbitrary: st ss s)
  case Nil
  then show ?case by (simp add: record_all_def)
next
  case (Cons x xs)
  have 1: "load_sessions (snd (save_session now x st)) = Returned (take 1000 (x # ss))"
    using Cons.prems(1) by (rule save_session_log)
  have 2: "load_statistics (snd (save_session now x st)) = Returned (fold_statistics now x s)"
    using Cons.prems by (rule save_session_stats)
  from Cons.IH [OF 1 2] obtain s' where
    "load_statistics (record_all now xs (snd (save_session now x st))) = Returned s'"
    "total_sessions s' = total_sessions (fold_statistics now x s) + int (length xs)"
    "unusual_count s' = unusual_count (fold_statistics now x s) + int (length (filter is_unusual xs))"
    "sum_list (map snd (activities s'))
       = sum_list (map snd (activities (fold_statistics now x s))) + int (length xs)"
    by blast
  then show ?case
    by (simp add: record_all_Cons fold_statistics_fields)
qed

text \<open>
  Claim C5. One \<open>update_statistics\<close> on readable statistics adds exactly 1 to
  total_sessions, adds 1 to the count of the recorded activity and leaves every other
  activity's count as it was, so the sum of the activity counts grows by 1 and stays
  equal to total_sessions when it was; unusual_count grows by 1 exactly when the record
  is unusual. Starting without files, after the record operations of a list of N
  results total_sessions is N, the activity counts sum to N and unusual_count is the
  number of unusual results, while the log holds only min N 1000 of them: the counts are
  not reduced when the log drops old records.
\<close>

theorem statistics_totals:
  "(load_statistics st = Returned s \<longrightarrow>
      (\<exists>s'. update_statistics now x st = (Returned (), st\<lparr>stats_file := Json s'\<rparr>)
         \<and> total_sessions s' = total_sessions s + 1
         \<and> (\<forall>a. dict_get (activities s') a 0
                  = dict_get (activities s) a 0 + (if a = activity x then 1 else 0))
         \<and> sum_list (map snd (activities s')) = sum_list (map snd (activities s)) + 1
         \<and> unusual_count s' = unusual_count s + (if is_unusual x then 1 else 0)
         \<and> (sum_list (map snd (activities s)) = total_sessions s
              \<longrightarrow> sum_list (map snd (activities s')) = total_sessions s')))
   \<and> (stats_file st0 = Missing \<and> sessions_file st0 = Missing \<longrightarrow>
      (\<exists>s' ss'. load_statistics (record_all now xs st0) = Returned s'
         \<and> total_sessions s' = int (length xs)
         \<and> sum_list (map snd (activities s')) = total_sessions s'
         \<and> unusual_count s' = int (length (filter is_unusual xs))
         \<and> load_sessions (record_all now xs st0) = Returned ss'
         \<and> length ss' = min (length xs) 1000))"
proof (intro conjI impI)
  assume a: "load_statistics st = Returned s"
  show "\<exists>s'. update_statistics now x st = (Returned (), st\<lparr>stats_file := Json s'\<rparr>)
         \<and> total_sessions s' = total_sessions s + 1
         \<and> (\<forall>a. dict_get (activities s') a 0
                  = dict_get (activities s) a 0 + (if a = activity x then 1 else 0))
         \<and> sum_list (map snd (activities s')) = sum_list (map snd (activities s)) + 1
         \<and> unusual_count s' = unusual_count s + (if is_unusual x then 1 else 0)
         \<and> (sum_list (map snd (activities s)) = total_sessions s
              \<longrightarrow> sum_list (map snd (activities s')) = total_sessions s')"
    by (rule exI [of _ "fold_statistics now x s"])
      (simp add: update_statistics_ok [OF a] fold_statistics_fields)
next
  assume b: "stats_file st0 = Missing \<and> sessions_file st0 = Missing"
  then have 1: "load_sessions st0 = Returned []"
    and 2: "load_statistics st0 = Returned default_statistics"
    by (simp_all add: load_sessions_def load_statistics_def)
  from record_all_stats [OF 1 2, of now xs] obtain s' where
    s': "load_statistics (record_all now xs st0) = Returned s'"
    "total_sessions s' = int (length xs)"
    "unusual_count s' = int (length (filter is_unusual xs))"
    "sum_list (map snd (activities s')) = int (length xs)"
    by (auto simp add: default_statistics_def)
  have l: "load_sessions (record_all now xs st0)
             = Returned (if xs = [] then [] else take 1000 (rev xs @ []))"
    by (rule record_all_log [OF 1])
  have "length (if xs = [] then [] else take 1000 (rev xs @ [])) = min (length xs) 1000"
    by simp
  with s' l show "\<exists>s' ss'. load_statistics (record_all now xs st0) = Returned s'
         \<and> total_sessions s' = int (length xs)
         \<and> sum_list (map snd (activities s')) = total_sessions s'
         \<and> unusual_count s' = int (length (filter is_unusual xs))
         \<and> load_sessions (record_all now xs st0) = Returned ss'
         \<and> length ss' = min (length xs) 1000"
    by metis
qed

theorem statistics_totals_witness:
  "load_statistics (disk empty_server) = Returned default_statistics
   \<and> sum_list (map snd (activities default_statistics)) = total_sessions default_statistics
   \<and> stats_file (disk empty_server) = Missing \<and> sessions_file (disk empty_server) = Missing
   \<and> (\<exists>s'. update_statistics ''t'' (hd thousand_and_one) (disk empty_server)
              = (Returned (), (disk empty_server)\<lparr>stats_file := Json s'\<rparr>)
         \<and> total_sessions s' = 1 \<and> sum_list (map snd (activities s')) = 1)
   \<and> (\<exists>s' ss'. load_statistics (record_all ''t'' thousand_and_one (disk empty_server)) = Returned s'
         \<and> total_sessions s' = 1001
         \<and> load_sessions (record_all ''t'' thousand_and_one (disk empty_server)) = Returned ss'
         \<and> length ss' = 1000)"
proof -
  have 1: "load_statistics (disk empty_server) = Returned default_statistics"
    and 2: "stats_file (disk empty_server) = Missing"
    and 3: "sessions_file (disk empty_server) = Missing"
    by (simp_all add: empty_server_def load_statistics_def)
  have 4: "sum_list (map snd (activities default_statistics)) = total_sessions default_statistics"
    and 5: "total_sessions default_statistics = 0"
    by (simp_all add: default_statistics_def)
  note t = statistics_totals [of "disk empty_server" default_statistics "''t''"
      "hd thousand_and_one" "disk empty_server" thousand_and_one]
  from t 1 4 5 have a:
    "\<exists>s'. update_statistics ''t'' (hd thousand_and_one) (disk empty_server)
              = (Returned (), (disk empty_server)\<lparr>stats_file := Json s'\<rparr>)
         \<and> total_sessions s' = 1 \<and> sum_list (map snd (activities s')) = 1"
    by auto
  from t 2 3 length_thousand_and_one have b:
    "\<exists>s' ss'. load_statistics (record_all ''t'' thousand_and_one (disk empty_server)) = Returned s'
         \<and> total_sessions s' = 1001
         \<and> load_sessions (record_all ''t'' thousand_and_one (disk empty_server)) = Returned ss'
         \<and> length ss' = 1000"
    by auto
  from 1 2 3 4 a b show ?thesis by blast
qed

section \<open>Reset and the analyse route\<close>

lemma clear_data_files:
  "sessions_file (clear_data st) = Missing" "stats_file (clear_data st) = Missing"
  by (simp_all add: clear_data_def Let_def)

text \<open>
  Claim C9. After \<open>clear_data\<close>, whatever the two files held (also unreadable content),
  both files are gone: loading the statistics returns the default object (total_sessions
  0, unusual_count 0, no activities, no last_updated), the session list is empty for
  every limit, and the statistics route returns the zeroed object without derived
  fields.
\<close>

theorem reset_clears:
  "sessions_file (clear_data st) = Missing
   \<and> stats_file (clear_data st) = Missing
   \<and> load_statistics (clear_data st) = Returned default_statistics
   \<and> total_sessions default_statistics = 0
   \<and> unusual_count default_statistics = 0
   \<and> activities default_statistics = []
   \<and> last_updated default_statistics = None
   \<and> load_sessions (clear_data st) = Returned []
   \<and> get_sessions limit_arg (clear_data st) = Returned ([], 0)
   \<and> get_stats (clear_data st) = Returned zero_statistics"
  by (simp add: clear_data_files load_statistics_def load_sessions_def get_sessions_def
      get_stats_def py_take_def default_statistics_def zero_statistics_def Let_def)

lemma analysers_student_id:
  "analyze_image_advanced e now img sid = Returned a \<Longrightarrow> student_id a = sid"
  "analyze_image_basic e now img sid = Returned a \<Longrightarrow> student_id a = sid"
  by (auto simp add: analyze_image_advanced_def analyze_image_basic_def advanced_result_def
      basic_result_def Let_def split: prod.splits outcome.splits)

lemma save_session_returned:
  "save_session now x st = (Returned u, d) \<Longrightarrow>
     \<exists>ss. load_sessions st = Returned ss \<and> load_sessions d = Returned (take 1000 (x # ss))"
  by (auto simp add: save_session_def update_statistics_def load_sessions_def Let_def
      split: outcome.splits document.splits)

lemma analyze_success:
  assumes "analyze e now now' req srv = (Success a, srv')"
  shows "student_id a = dict_get (form req) ''student_id'' ''unknown''"
    and "\<exists>rest. load_sessions (disk srv') = Returned (a # rest)"
proof -
  let ?sid = "dict_get (form req) ''student_id'' ''unknown''"
  from assms obtain bs img where bs: "image_file req = Some bs" and img: "imdecode e bs = Some img"
    by (auto simp add: analyze_def Let_def split: option.splits)
  let ?an = "if object_detector e \<noteq> None \<and> pose_detector e \<noteq> None
             then analyze_image_advanced e now img ?sid else analyze_image_basic e now img ?sid"
  let ?srv1 = "srv\<lparr>latest_frames := (latest_frames srv)(?sid \<mapsto> img)\<rparr>"
  from assms bs img have an: "?an = Returned a"
    by (auto simp add: analyze_def Let_def split: outcome.splits prod.splits)
  then show "student_id a = ?sid"
    by (auto simp add: analysers_student_id split: if_splits)
  from assms bs img an obtain u d where
    sv: "save_session now' a (disk ?srv1) = (Returned u, d)" and d: "srv' = ?srv1\<lparr>disk := d\<rparr>"
    by (auto simp add: analyze_def Let_def split: outcome.splits prod.splits)
  from save_session_returned [OF sv] d
  show "\<exists>rest. load_sessions (disk srv') = Returned (a # rest)" by auto
qed

text \<open>
  Claim C7, as amended. When the analyse route succeeds, the result it returns is the
  first record of the stored log, and its identifier is the value of the form field
  \<open>student_id\<close> when the form has one (the first, if several) and "unknown" otherwise.
\<close>

theorem subject_identifier:
  "analyze e now now' req srv = (Success a, srv') \<longrightarrow>
     (\<exists>rest. load_sessions (disk srv') = Returned (a # rest))
     \<and> (\<forall>x. map_of (form req) ''student_id'' = Some x \<longrightarrow> student_id a = x)
     \<and> (map_of (form req) ''student_id'' = None \<longrightarrow> student_id a = ''unknown'')"
proof
  assume s: "analyze e now now' req srv = (Success a, srv')"
  from analyze_success [OF s]
  show "(\<exists>rest. load_sessions (disk srv') = Returned (a # rest))
     \<and> (\<forall>x. map_of (form req) ''student_id'' = Some x \<longrightarrow> student_id a = x)
     \<and> (map_of (form req) ''student_id'' = None \<longrightarrow> student_id a = ''unknown'')"
    by (auto simp add: dict_get_def)
qed

lemma analyze_basic_env:
  "analyze basic_env t t' \<lparr> image_file = Some [1], form = f \<rparr> empty_server
     = (Success (basic_result 640 480 1 0 120 t (dict_get f ''student_id'' ''unknown'')),
        \<lparr> latest_frames = [dict_get f ''student_id'' ''unknown'' \<mapsto> [1]],
          disk = \<lparr> sessions_file =
                     Json [basic_result 640 480 1 0 120 t (dict_get f ''student_id'' ''unknown'')],
                   stats_file =
                     Json (fold_statistics t'
                       (basic_result 640 480 1 0 120 t (dict_get f ''student_id'' ''unknown''))
                       default_statistics) \<rparr> \<rparr>)"
  by (simp add: analyze_def basic_env_def empty_server_def analyze_image_basic_def
      save_session_def update_statistics_def load_sessions_def load_statistics_def Let_def)

lemma student_id_basic: "student_id (basic_result w h faces edges b now sid) = sid"
  by (simp add: basic_result_def Let_def split: prod.splits)

text \<open>
  Claim C7 as stated fails: the route reads the form field \<open>student_id\<close>, not
  \<open>subject_id\<close>. A request whose form holds \<open>subject_id = cam1\<close> and an image is
  recorded under "unknown".
\<close>

theorem subject_identifier_counterexample:
  "map_of (form subject_request) ''subject_id'' = Some ''cam1''
   \<and> fst (analyze basic_env ''t0'' ''t1'' subject_request empty_server)
       = Success (basic_result 640 480 1 0 120 ''t0'' ''unknown'')
   \<and> student_id (basic_result 640 480 1 0 120 ''t0'' ''unknown'') \<noteq> ''cam1''"
proof -
  have 1: "map_of (form subject_request) ''subject_id'' = Some ''cam1''"
    by (simp add: subject_request_def)
  have 2: "dict_get [(''subject_id'', ''cam1'')] ''student_id'' ''unknown'' = ''unknown''"
    by (simp add: dict_get_def)
  have 3: "fst (analyze basic_env ''t0'' ''t1'' subject_request empty_server)
       = Success (basic_result 640 480 1 0 120 ''t0'' ''unknown'')"
    unfolding subject_request_def by (simp only: analyze_basic_env 2 fst_conv)
  have 4: "student_id (basic_result 640 480 1 0 120 ''t0'' ''unknown'') \<noteq> ''cam1''"
    by (simp add: student_id_basic)
  from 1 3 4 show ?thesis by blast
qed

theorem subject_identifier_witness:
  "analyze basic_env ''t0'' ''t1'' student_request empty_server
     = (Success (basic_result 640 480 1 0 120 ''t0'' ''cam1''),
        \<lparr> latest_frames = [''cam1'' \<mapsto> [1]],
          disk = \<lparr> sessions_file = Json [basic_result 640 480 1 0 120 ''t0'' ''cam1''],
                   stats_file = Json (fold_statistics ''t1''
                       (basic_result 640 480 1 0 120 ''t0'' ''cam1'') default_statistics) \<rparr> \<rparr>)
   \<and> map_of (form student_request) ''student_id'' = Some ''cam1''
   \<and> student_id (basic_result 640 480 1 0 120 ''t0'' ''cam1'') = ''cam1''
   \<and> map_of (form subject_request) ''student_id'' = None
   \<and> student_id (basic_result 640 480 1 0 120 ''t0'' ''unknown'') = ''unknown''"
proof -
  have 1: "dict_get [(''student_id'', ''cam1'')] ''student_id'' ''unknown'' = ''cam1''"
    and 2: "dict_get [(''subject_id'', ''cam1'')] ''student_id'' ''unknown'' = ''unknown''"
    by (simp_all add: dict_get_def)
  have a: "analyze basic_env ''t0'' ''t1'' student_request empty_server
     = (Success (basic_result 640 480 1 0 120 ''t0'' ''cam1''),
        \<lparr> latest_frames = [''cam1'' \<mapsto> [1]],
          disk = \<lparr> sessions_file = Json [basic_result 640 480 1 0 120 ''t0'' ''cam1''],
                   stats_file = Json (fold_statistics ''t1''
                       (basic_result 640 480 1 0 120 ''t0'' ''cam1'') default_statistics) \<rparr> \<rparr>)"
    unfolding student_request_def by (simp only: analyze_basic_env 1)
  have b: "analyze basic_env ''t0'' ''t1'' subject_request empty_server
     = (Success (basic_result 640 480 1 0 120 ''t0'' ''unknown''),
        \<lparr> latest_frames = [''unknown'' \<mapsto> [1]],
          disk = \<lparr> sessions_file = Json [basic_result 640 480 1 0 120 ''t0'' ''unknown''],
                   stats_file = Json (fold_statistics ''t1''
                       (basic_result 640 480 1 0 120 ''t0'' ''unknown'') default_statistics) \<rparr> \<rparr>)"
    unfolding subject_request_def by (simp only: analyze_basic_env 2)
  have m: "map_of (form student_request) ''student_id'' = Some ''cam1''"
    and n: "map_of (form subject_request) ''student_id'' = None"
    by (simp_all add: student_request_def subject_request_def)
  from subject_identifier [of basic_env "''t0''" "''t1''" student_request empty_server] a m
  have c: "student_id (basic_result 640 480 1 0 120 ''t0'' ''cam1'') = ''cam1''" by blast
  from subject_identifier [of basic_env "''t0''" "''t1''" subject_request empty_server] b n
  have d: "student_id (basic_result 640 480 1 0 120 ''t0'' ''unknown'') = ''unknown''" by blast
  from a m c n d show ?thesis by blast
qed

lemma analyze_rejected:
  "image_file req = None \<Longrightarrow>
     analyze e now now' req srv = (Failure 400 ''No image provided'', srv)"
  "image_file req = Some bs \<Longrightarrow> imdecode e bs = None \<Longrightarrow>
     analyze e now now' req srv = (Failure 400 ''Failed to decode image'', srv)"
  by (simp_all add: analyze_def Let_def)

lemma analyze_cache:
  "image_file req = Some bs \<Longrightarrow> imdecode e bs = Some img \<Longrightarrow>
     latest_frames (snd (analyze e now now' req srv))
       = (latest_frames srv)(dict_get (form req) ''student_id'' ''unknown'' \<mapsto> img)"
  by (simp add: analyze_def Let_def split: outcome.splits prod.splits)

lemma analyze_400:
  "fst (analyze e now now' req srv) = Failure 400 m \<Longrightarrow> snd (analyze e now now' req srv) = srv"
  by (auto simp add: analyze_def Let_def split: option.splits outcome.splits prod.splits)

text \<open>
  Claim C10. When the request has an image that decodes, the cache after the request
  maps the request's identifier to the new frame and is otherwise as before, whatever
  the outcome: also when the analyser or the recording raises and the answer is 500.
  A request without image, or with bytes that do not decode, is answered 400 and leaves
  the whole state as it was; and every 400 answer leaves the state as it was.
\<close>

theorem cache_before_analysis:
  "(image_file req = Some bs \<and> imdecode e bs = Some img \<longrightarrow>
      latest_frames (snd (analyze e now now' req srv))
        = (latest_frames srv)(dict_get (form req) ''student_id'' ''unknown'' \<mapsto> img))
   \<and> (image_file req = None \<longrightarrow>
        analyze e now now' req srv = (Failure 400 ''No image provided'', srv))
   \<and> (image_file req = Some bs \<and> imdecode e bs = None \<longrightarrow>
        analyze e now now' req srv = (Failure 400 ''Failed to decode image'', srv))
   \<and> (fst (analyze e now now' req srv) = Failure 400 m \<longrightarrow>
        snd (analyze e now now' req srv) = srv)"
proof (intro conjI impI)
  assume "image_file req = Some bs \<and> imdecode e bs = Some img"
  then show "latest_frames (snd (analyze e now now' req srv))
        = (latest_frames srv)(dict_get (form req) ''student_id'' ''unknown'' \<mapsto> img)"
    by (simp add: analyze_cache)
next
  assume "image_file req = None"
  then show "analyze e now now' req srv = (Failure 400 ''No image provided'', srv)"
    by (rule analyze_rejected(1))
next
  assume "image_file req = Some bs \<and> imdecode e bs = None"
  then show "analyze e now now' req srv = (Failure 400 ''Failed to decode image'', srv)"
    by (simp add: analyze_rejected(2))
next
  assume "fst (analyze e now now' req srv) = Failure 400 m"
  then show "snd (analyze e now now' req srv) = srv"
    by (rule analyze_400)
qed

lemma analyze_raising_env:
  "analyze raising_env ''t0'' ''t1'' student_request empty_server
     = (Failure 500 ''RuntimeError'', empty_server\<lparr>latest_frames := [''cam1'' \<mapsto> [1]]\<rparr>)"
  by (simp add: analyze_def raising_env_def basic_env_def student_request_def empty_server_def
      analyze_image_advanced_def run_detector_def dict_get_def Let_def)

lemma analyze_corrupt_disk:
  "analyze basic_env ''t0'' ''t1'' student_request
       (empty_server\<lparr>disk := \<lparr>sessions_file = Corrupt, stats_file = Missing\<rparr>\<rparr>)
     = (Failure 500 ''JSONDecodeError'',
        \<lparr>latest_frames = [''cam1'' \<mapsto> [1]],
         disk = \<lparr>sessions_file = Corrupt, stats_file = Missing\<rparr>\<rparr>)"
  by (simp add: analyze_def basic_env_def student_request_def empty_server_def
      analyze_image_basic_def save_session_def load_sessions_def dict_get_def Let_def)

theorem cache_before_analysis_witness:
  "image_file student_request = Some [1] \<and> imdecode raising_env [1] = Some [1]
   \<and> fst (analyze raising_env ''t0'' ''t1'' student_request empty_server)
       = Failure 500 ''RuntimeError''
   \<and> latest_frames (snd (analyze raising_env ''t0'' ''t1'' student_request empty_server))
       = [''cam1'' \<mapsto> [1]]
   \<and> fst (analyze basic_env ''t0'' ''t1'' student_request
            (empty_server\<lparr>disk := \<lparr>sessions_file = Corrupt, stats_file = Missing\<rparr>\<rparr>))
       = Failure 500 ''JSONDecodeError''
   \<and> image_file no_image_request = None
   \<and> fst (analyze raising_env ''t0'' ''t1'' no_image_request empty_server)
       = Failure 400 ''No image provided''
   \<and> snd (analyze raising_env ''t0'' ''t1'' no_image_request empty_server) = empty_server"
proof -
  have 1: "image_file student_request = Some [1]" and 2: "imdecode raising_env [1] = Some [1]"
    and 3: "image_file no_image_request = None"
    and 4: "dict_get (form student_request) ''student_id'' ''unknown'' = ''cam1''"
    and 5: "latest_frames empty_server = Map.empty"
    by (simp_all add: student_request_def no_image_request_def raising_env_def basic_env_def
        dict_get_def empty_server_def)
  from cache_before_analysis [of student_request "[1]" raising_env "[1]" "''t0''" "''t1''"
      empty_server] 1 2 4 5
  have a: "latest_frames (snd (analyze raising_env ''t0'' ''t1'' student_request empty_server))
       = [''cam1'' \<mapsto> [1]]" by simp
  from cache_before_analysis [of no_image_request "[1]" raising_env "[1]" "''t0''" "''t1''"
      empty_server "''No image provided''"] 3
  have b: "analyze raising_env ''t0'' ''t1'' no_image_request empty_server
             = (Failure 400 ''No image provided'', empty_server)" by blast
  have c: "fst (analyze raising_env ''t0'' ''t1'' student_request empty_server)
       = Failure 500 ''RuntimeError''"
    by (simp add: analyze_raising_env)
  have d: "fst (analyze basic_env ''t0'' ''t1'' student_request
            (empty_server\<lparr>disk := \<lparr>sessions_file = Corrupt, stats_file = Missing\<rparr>\<rparr>))
       = Failure 500 ''JSONDecodeError''"
    by (simp add: analyze_corrupt_disk)
  from 1 2 3 a b c d show ?thesis by simp
qed

section \<open>The statistics route\<close>












end
